theory Spec2Isabelle
  imports Complex_Main "HOL-Library.AList"
begin

section \<open>Backup and replication status reporting (carpenike/nix-config, scripts/)\<close>

text \<open>
  The development embeds the decision logic of two command line tools:
  \<^item> \<^verbatim>\<open>scripts/syncoid-list.py\<close>: the replication (syncoid) status list, with its two
    acquisition modes (Prometheus and SSH verify), its filters and its two renderers;
  \<^item> \<^verbatim>\<open>scripts/backup-status.py\<close>: the dashboard for pgBackRest, syncoid and restic.

  Conventions of the embedding.
  \<^item> A Python \<^verbatim>\<open>float\<close> is a \<^typ>\<open>real\<close>: finite values, exact arithmetic. NaN, the
    infinities and rounding are outside the model.
  \<^item> A Python \<^verbatim>\<open>int\<close> is an \<^typ>\<open>int\<close>; \<^verbatim>\<open>Optional[t]\<close> is \<^typ>\<open>'a option\<close>.
  \<^item> A Python \<^verbatim>\<open>str\<close> is a \<^typ>\<open>string\<close>.
  \<^item> \<^verbatim>\<open>datetime.now().timestamp()\<close> is a reading of the clock that the caller passes in.
  \<^item> Both scripts define \<^verbatim>\<open>STALE_THRESHOLD_HOURS\<close> and \<^verbatim>\<open>main\<close>; the names of
    \<^verbatim>\<open>backup-status.py\<close> carry the prefix \<open>bs_\<close> where they clash.
\<close>

subsection \<open>Python string primitives\<close>

text \<open>\<^verbatim>\<open>str.lower()\<close>, on ASCII letters; every other character is left as it is.\<close>

definition lower_char :: "char \<Rightarrow> char" where
  "lower_char c =
     (case map_of (zip ''ABCDEFGHIJKLMNOPQRSTUVWXYZ'' ''abcdefghijklmnopqrstuvwxyz'') c of
        Some l \<Rightarrow> l
      | None \<Rightarrow> c)"

definition lower :: "string \<Rightarrow> string" where
  "lower s = map lower_char s"

text \<open>\<^verbatim>\<open>s.startswith(p)\<close> and the substring test \<^verbatim>\<open>p in s\<close>.\<close>

fun startswith :: "string \<Rightarrow> string \<Rightarrow> bool" where
  "startswith s [] = True"
| "startswith [] (p # ps) = False"
| "startswith (c # cs) (p # ps) = (c = p \<and> startswith cs ps)"

fun str_in :: "string \<Rightarrow> string \<Rightarrow> bool" where
  "str_in p [] = (p = [])"
| "str_in p (c # cs) = (startswith (c # cs) p \<or> str_in p cs)"

text \<open>\<^verbatim>\<open>str(n)\<close> for an integer, as an f-string renders it.\<close>

definition digit_char :: "nat \<Rightarrow> char" where
  "digit_char d = ''0123456789'' ! d"

fun str_nat :: "nat \<Rightarrow> string" where
  "str_nat n = (if n < 10 then [digit_char n] else str_nat (n div 10) @ [digit_char (n mod 10)])"

declare str_nat.simps [simp del]

definition str_int :: "int \<Rightarrow> string" where
  "str_int i = (if i < 0 then CHR ''-'' # str_nat (nat (- i)) else str_nat (nat i))"

subsection \<open>syncoid-list.py: the normalizer\<close>

definition STALE_THRESHOLD_HOURS :: int where
  "STALE_THRESHOLD_HOURS = 2"

text \<open>
  \<^verbatim>\<open>get_status_display(status, last_success)\<close> returns \<open>(status_text, color, details)\<close>.
  The first argument of the model is the clock reading \<^verbatim>\<open>now\<close> of the function's
  first line.
\<close>

definition get_status_display ::
  "real \<Rightarrow> int option \<Rightarrow> real option \<Rightarrow> string \<times> string \<times> string" where
  "get_status_display now status last_success =
     (if status = Some 2 then (''RUNNING'', ''cyan'', ''Replication in progress'')
      else if status = Some 0 then (''FAILED'', ''red'', ''Last run failed'')
      else if status = Some 1 then
        (case last_success of
           Some ls \<Rightarrow>
             (let age_hours = (now - ls) / 3600 in
              if age_hours > real_of_int STALE_THRESHOLD_HOURS
              then (''STALE'', ''yellow'',
                    ''Last success > '' @ str_int STALE_THRESHOLD_HOURS @ ''h ago'')
              else (''OK'', ''green'', ''Healthy''))
         | None \<Rightarrow> (''OK'', ''green'', ''Healthy (no timestamp)''))
      else
        (case last_success of
           Some ls \<Rightarrow>
             (let age_hours = (now - ls) / 3600 in
              if age_hours > real_of_int STALE_THRESHOLD_HOURS
              then (''STALE'', ''yellow'',
                    ''Last success > '' @ str_int STALE_THRESHOLD_HOURS @ ''h ago'')
              else (''UNKNOWN'', ''dim'', ''No status metric''))
         | None \<Rightarrow> (''UNKNOWN'', ''dim'', ''No status metric'')))"

subsection \<open>syncoid-list.py: acquisition from Prometheus\<close>

text \<open>
  A job is the dictionary that both acquisition functions build. The keys
  \<^verbatim>\<open>instance\<close> (Prometheus mode only) and \<^verbatim>\<open>systemd_state\<close> (verify mode only) are
  optional fields: \<open>None\<close> is an absent key.
\<close>

record job =
  job_dataset :: string
  job_unit :: string
  job_target_host :: string
  job_target_name :: string
  job_target_location :: string
  job_status :: "int option"
  job_last_success :: "real option"
  job_instance :: "string option"
  job_systemd_state :: "string option"

text \<open>
  One element of a Prometheus result vector. \<open>item_value\<close> is the float that
  \<^verbatim>\<open>float(item.get('value', [0, 0])[1])\<close> returns, and \<open>None\<close> where that conversion raises
  \<^verbatim>\<open>ValueError\<close> or \<^verbatim>\<open>TypeError\<close> (an item with no \<^verbatim>\<open>value\<close> key therefore carries
  \<open>Some 0\<close>).
\<close>

record item =
  item_metric :: "string \<rightharpoonup> string"
  item_value :: "real option"

text \<open>\<^verbatim>\<open>d.get(k, default)\<close> on a dictionary of strings.\<close>

definition dict_get :: "(string \<rightharpoonup> string) \<Rightarrow> string \<Rightarrow> string \<Rightarrow> string" where
  "dict_get d k dflt = (case d k of Some v \<Rightarrow> v | None \<Rightarrow> dflt)"

text \<open>\<^verbatim>\<open>int(x)\<close> on a float: truncation towards zero.\<close>

definition int_of_float :: "real \<Rightarrow> int" where
  "int_of_float x = (if x \<ge> 0 then \<lfloor>x\<rfloor> else \<lceil>x\<rceil>)"

text \<open>
  The dictionary \<^verbatim>\<open>jobs\<close>, keyed by dataset, is an association list in insertion order:
  assigning to a key that is present keeps its position (\<^const>\<open>AList.update\<close>), as a
  Python \<^verbatim>\<open>dict\<close> does. The three loop bodies follow.
\<close>

definition info_step :: "(string \<times> job) list \<Rightarrow> item \<Rightarrow> (string \<times> job) list" where
  "info_step jobs it =
     (let metric = item_metric it;
          dataset = dict_get metric ''dataset'' ''''
      in if dataset = '''' then jobs
         else AList.update dataset
                \<lparr>job_dataset = dataset,
                 job_unit = dict_get metric ''unit'' '''',
                 job_target_host = dict_get metric ''target_host'' '''',
                 job_target_name = dict_get metric ''target_name'' '''',
                 job_target_location = dict_get metric ''target_location'' '''',
                 job_status = None,
                 job_last_success = None,
                 job_instance = Some (dict_get metric ''instance'' ''''),
                 job_systemd_state = None\<rparr> jobs)"

definition status_step :: "(string \<times> job) list \<Rightarrow> item \<Rightarrow> (string \<times> job) list" where
  "status_step jobs it =
     (let dataset = dict_get (item_metric it) ''dataset'' ''''
      in if dataset \<in> fst ` set jobs
         then (case item_value it of
                 Some v \<Rightarrow>
                   AList.map_entry dataset (\<lambda>j. j\<lparr>job_status := Some (int_of_float v)\<rparr>) jobs
               | None \<Rightarrow> jobs)
         else jobs)"

definition last_success_step :: "(string \<times> job) list \<Rightarrow> item \<Rightarrow> (string \<times> job) list" where
  "last_success_step jobs it =
     (let dataset = dict_get (item_metric it) ''dataset'' ''''
      in if dataset \<in> fst ` set jobs
         then (case item_value it of
                 Some v \<Rightarrow> AList.map_entry dataset (\<lambda>j. j\<lparr>job_last_success := Some v\<rparr>) jobs
               | None \<Rightarrow> jobs)
         else jobs)"

text \<open>
  \<^verbatim>\<open>get_syncoid_metrics_from_prometheus\<close>. The three arguments are what
  \<^verbatim>\<open>query_prometheus\<close> answers for the info, status and last-success queries: \<open>None\<close>
  where the function's guard (\<^verbatim>\<open>not result or 'result' not in result\<close>) rejects the
  answer, and the list under \<^verbatim>\<open>'result'\<close> otherwise.
\<close>

definition get_syncoid_metrics_from_prometheus ::
  "item list option \<Rightarrow> item list option \<Rightarrow> item list option \<Rightarrow> job list" where
  "get_syncoid_metrics_from_prometheus info_result status_result last_success_result =
     (case info_result of
        None \<Rightarrow> []
      | Some infos \<Rightarrow>
          (let jobs = foldl info_step [] infos;
               jobs = (case status_result of
                         Some items \<Rightarrow> foldl status_step jobs items
                       | None \<Rightarrow> jobs);
               jobs = (case last_success_result of
                         Some items \<Rightarrow> foldl last_success_step jobs items
                       | None \<Rightarrow> jobs)
           in map snd jobs))"

subsection \<open>syncoid-list.py: acquisition by direct probe (verify mode)\<close>

text \<open>One entry of the list that \<^verbatim>\<open>discover_syncoid_services\<close> returns.\<close>

record service =
  svc_unit :: string
  svc_dataset :: string
  svc_active_state :: string
  svc_sub_state :: string
  svc_exit_timestamp :: string
  svc_result :: string
  svc_target_host :: "string option"

text \<open>\<^verbatim>\<open>s.rsplit(sep, 1)\<close> for a one-character separator.\<close>

definition rsplit1 :: "char \<Rightarrow> string \<Rightarrow> string list" where
  "rsplit1 sep s =
     (if sep \<in> set s
      then [rev (tl (dropWhile (\<lambda>c. c \<noteq> sep) (rev s))), rev (takeWhile (\<lambda>c. c \<noteq> sep) (rev s))]
      else [s])"

text \<open>
  \<^verbatim>\<open>get_syncoid_verify_data\<close>, on the discovered services. The parameter \<open>strptime\<close> is
  \<^verbatim>\<open>datetime.strptime(s, "%a %Y-%m-%d %H:%M:%S").timestamp()\<close>, with \<open>None\<close> where it raises
  (the \<^verbatim>\<open>except Exception: pass\<close> of the source).
\<close>

definition verify_job :: "(string \<Rightarrow> real option) \<Rightarrow> service \<Rightarrow> job" where
  "verify_job strptime svc =
     (let status = (if svc_active_state svc = ''activating'' then 2
                    else if svc_result svc = ''success'' then 1
                    else (0::int));
          last_success =
            (if svc_exit_timestamp svc \<noteq> '''' \<and> svc_result svc = ''success''
             then (let parts = rsplit1 CHR '' '' (svc_exit_timestamp svc)
                   in if length parts = 2 then strptime (hd parts) else None)
             else None)
      in \<lparr>job_dataset = svc_dataset svc,
          job_unit = svc_unit svc,
          job_target_host = (case svc_target_host svc of
                               None \<Rightarrow> ''unknown''
                             | Some h \<Rightarrow> if h = '''' then ''unknown'' else h),
          job_target_name = '''',
          job_target_location = '''',
          job_status = Some status,
          job_last_success = last_success,
          job_instance = None,
          job_systemd_state = Some (svc_active_state svc @ ''/'' @ svc_sub_state svc)\<rparr>)"

definition get_syncoid_verify_data :: "(string \<Rightarrow> real option) \<Rightarrow> service list \<Rightarrow> job list" where
  "get_syncoid_verify_data strptime services = map (verify_job strptime) services"

subsection \<open>syncoid-list.py: JSON rendering and summary counts\<close>

record output_job =
  oj_dataset :: string
  oj_unit :: string
  oj_target_host :: string
  oj_target_name :: string
  oj_target_location :: string
  oj_status :: "int option"
  oj_status_text :: string
  oj_last_success :: "real option"
  oj_details :: string

record summary =
  sum_total :: nat
  sum_ok :: nat
  sum_running :: nat
  sum_stale :: nat
  sum_failed :: nat
  sum_healthy :: nat

record json_output =
  out_host :: string
  out_mode :: string
  out_stale_threshold_hours :: int
  out_jobs :: "output_job list"
  out_summary :: summary

text \<open>
  The dictionary \<^verbatim>\<open>stats\<close> is an association list. \<^verbatim>\<open>stats[k]\<close> is read only at the five
  keys it is created with, none of which is ever removed; \<open>stats_get\<close> reads it.
\<close>

definition initial_stats :: "(string \<times> nat) list" where
  "initial_stats = [(''ok'', 0), (''stale'', 0), (''failed'', 0), (''running'', 0), (''unknown'', 0)]"

definition stats_get :: "(string \<times> nat) list \<Rightarrow> string \<Rightarrow> nat" where
  "stats_get stats k = (case map_of stats k of Some n \<Rightarrow> n | None \<Rightarrow> 0)"

text \<open>
  The body of the loop of \<^verbatim>\<open>print_json_output\<close>, for one job, at the clock reading that
  its call of \<^verbatim>\<open>get_status_display\<close> takes.
\<close>

definition json_step ::
  "real \<Rightarrow> (string \<times> nat) list \<times> output_job list \<Rightarrow> job
     \<Rightarrow> (string \<times> nat) list \<times> output_job list" where
  "json_step now acc job =
     (case acc of (stats, output_jobs) \<Rightarrow>
      case get_status_display now (job_status job) (job_last_success job) of
        (status_text, _, details) \<Rightarrow>
          (let status_lower = lower status_text;
               stats = (if status_lower \<in> fst ` set stats
                        then AList.map_entry status_lower Suc stats
                        else stats)
           in (stats,
               output_jobs @
               [\<lparr>oj_dataset = job_dataset job,
                 oj_unit = job_unit job,
                 oj_target_host = job_target_host job,
                 oj_target_name = job_target_name job,
                 oj_target_location = job_target_location job,
                 oj_status = job_status job,
                 oj_status_text = status_text,
                 oj_last_success = job_last_success job,
                 oj_details = details\<rparr>])))"

text \<open>
  The loop itself. Every call of \<^verbatim>\<open>get_status_display\<close> reads the clock anew:
  \<open>clock k\<close> is the reading of the \<open>k\<close>-th call of a run.
\<close>

fun print_json_loop ::
  "(nat \<Rightarrow> real) \<Rightarrow> nat \<Rightarrow> job list \<Rightarrow> (string \<times> nat) list \<times> output_job list
     \<Rightarrow> (string \<times> nat) list \<times> output_job list" where
  "print_json_loop clock k [] acc = acc"
| "print_json_loop clock k (job # jobs) acc =
     print_json_loop clock (Suc k) jobs (json_step (clock k) acc job)"

text \<open>\<^verbatim>\<open>print_json_output\<close>: the value handed to \<^verbatim>\<open>json.dumps\<close>.\<close>

definition print_json_output :: "(nat \<Rightarrow> real) \<Rightarrow> job list \<Rightarrow> string \<Rightarrow> string \<Rightarrow> json_output" where
  "print_json_output clock jobs host mode =
     (case print_json_loop clock 0 jobs (initial_stats, []) of
        (stats, output_jobs) \<Rightarrow>
          \<lparr>out_host = host,
           out_mode = mode,
           out_stale_threshold_hours = STALE_THRESHOLD_HOURS,
           out_jobs = output_jobs,
           out_summary =
             \<lparr>sum_total = length jobs,
              sum_ok = stats_get stats ''ok'',
              sum_running = stats_get stats ''running'',
              sum_stale = stats_get stats ''stale'',
              sum_failed = stats_get stats ''failed'',
              sum_healthy = stats_get stats ''ok'' + stats_get stats ''running''\<rparr>\<rparr>)"

subsection \<open>syncoid-list.py: main\<close>

text \<open>The parsed command line.\<close>

record args =
  arg_host :: string
  arg_domain :: string
  arg_prometheus_url :: string
  arg_api_key :: "string option"
  arg_dataset :: "string option"
  arg_target :: "string option"
  arg_verify :: bool
  arg_json :: bool

text \<open>
  What the collaborators of one run answer: the SSH warm-up, the discovered services and
  the timestamp parser (verify mode), the three Prometheus queries, and the clock.
\<close>

record world =
  w_warmup :: bool
  w_services :: "service list"
  w_strptime :: "string \<Rightarrow> real option"
  w_info :: "item list option"
  w_status :: "item list option"
  w_last_success :: "item list option"
  w_clock :: "nat \<Rightarrow> real"

text \<open>
  What a run prints: a line on the console, a JSON error object, the JSON report, or the
  table that \<^verbatim>\<open>print_table_output(jobs, console, source)\<close> renders for a non-empty list.
\<close>

datatype printed =
  Console string
| JsonError string
| Json json_output
| Table "job list" string

text \<open>
  A filter of \<^verbatim>\<open>main\<close>: \<^verbatim>\<open>if arg: jobs = [j for j in jobs if arg.lower() in field(j).lower()]\<close>.
  An option that is not given, or given empty, filters nothing.
\<close>

definition apply_filter :: "string option \<Rightarrow> (job \<Rightarrow> string) \<Rightarrow> job list \<Rightarrow> job list" where
  "apply_filter arg field jobs =
     (case arg of
        None \<Rightarrow> jobs
      | Some a \<Rightarrow> if a = '''' then jobs
                  else filter (\<lambda>j. str_in (lower a) (lower (field j))) jobs)"

text \<open>The acquisition of \<^verbatim>\<open>main\<close>, once the warm-up has passed: \<open>(jobs, source, mode)\<close>.\<close>

definition acquire :: "args \<Rightarrow> world \<Rightarrow> job list \<times> string \<times> string" where
  "acquire a w =
     (let fqdn = arg_host a @ ''.'' @ arg_domain a
      in if arg_verify a
         then (get_syncoid_verify_data (w_strptime w) (w_services w), ''ssh://'' @ fqdn, ''verify'')
         else (get_syncoid_metrics_from_prometheus (w_info w) (w_status w) (w_last_success w),
               arg_prometheus_url a, ''prometheus''))"

text \<open>\<^verbatim>\<open>main\<close>: what is printed, in order, and the exit code.\<close>

definition main :: "args \<Rightarrow> world \<Rightarrow> printed list \<times> int" where
  "main a w =
     (let fqdn = arg_host a @ ''.'' @ arg_domain a;
          notices =
            (if arg_verify a
             then (if arg_json a then [] else [Console (''[dim]Connecting to '' @ fqdn @ ''...[/dim]'')])
             else (if arg_api_key a = None \<or> arg_api_key a = Some ''''
                   then [Console (''[yellow]Warning: PROMETHEUS_API_KEY not set. '' @
                                  ''Some endpoints may require authentication.[/yellow]'')]
                   else []))
      in if arg_verify a \<and> \<not> w_warmup w
         then (notices @
               [if arg_json a then JsonError (''Failed to connect to '' @ fqdn)
                else Console (''[red]Failed to connect to '' @ fqdn @ ''[/red]'')], 1)
         else
           (case acquire a w of
              (jobs, source, mode) \<Rightarrow>
                (let jobs = apply_filter (arg_dataset a) job_dataset jobs;
                     jobs = apply_filter (arg_target a) job_target_host jobs
                 in if arg_json a
                    then (notices @ [Json (print_json_output (w_clock w) jobs fqdn mode)], 0)
                    else if jobs = []
                    then (notices @
                          [Console ''[yellow]No syncoid replication jobs found.[/yellow]'',
                           Console (''[dim]Data source: '' @ source @ ''[/dim]'')], 1)
                    else (notices @ [Table jobs source], 0))))"

subsection \<open>backup-status.py: the dashboard\<close>

definition bs_STALE_THRESHOLD_HOURS :: int where
  "bs_STALE_THRESHOLD_HOURS = 26"

text \<open>
  One sample of a Prometheus result vector, as \<^verbatim>\<open>backup-status.py\<close> reads it:
  \<^verbatim>\<open>res["metric"]\<close> and \<^verbatim>\<open>float(res["value"][1])\<close>.
\<close>

record sample =
  res_metric :: "string \<rightharpoonup> string"
  res_value :: real

text \<open>The dictionary \<^verbatim>\<open>results\<close>: one result vector for each entry of \<^verbatim>\<open>QUERIES\<close>.\<close>

record results =
  r_pgbackrest_age :: "sample list"
  r_pgbackrest_repo_errors :: "sample list"
  r_pgbackrest_stanza_status :: "sample list"
  r_pgbackrest_repo_info :: "sample list"
  r_syncoid_age :: "sample list"
  r_syncoid_status :: "sample list"
  r_restic_age :: "sample list"
  r_restic_status :: "sample list"

definition get_status_for_age :: "real \<Rightarrow> string \<Rightarrow> string \<times> string" where
  "get_status_for_age age_seconds system =
     (if age_seconds > real_of_int (bs_STALE_THRESHOLD_HOURS * 3600)
      then (''[bold yellow]STALE[/bold yellow]'',
            ''Last success > '' @ str_int bs_STALE_THRESHOLD_HOURS @ ''h ago'')
      else (''[bold green]OK[/bold green]'', ''Healthy''))"

definition get_syncoid_status :: "real \<Rightarrow> string \<times> string" where
  "get_syncoid_status status_value =
     (if status_value = 0 then (''[bold red]FAILED[/bold red]'', ''Last run failed'')
      else if status_value = 2 then (''[bold cyan]RUNNING[/bold cyan]'', ''In progress'')
      else (''[bold green]OK[/bold green]'', ''Success''))"

definition get_restic_status :: "real \<Rightarrow> string \<times> string" where
  "get_restic_status status_value =
     (if status_value = 0 then (''[bold red]FAILED[/bold red]'', ''Last run failed'')
      else (''[bold green]OK[/bold green]'', ''Success''))"

text \<open>The map \<^verbatim>\<open>repo_info\<close> of \<^verbatim>\<open>main\<close>, one loop step for each repo-info sample.\<close>

definition repo_info_step :: "(string \<rightharpoonup> string) \<Rightarrow> sample \<Rightarrow> (string \<rightharpoonup> string)" where
  "repo_info_step repo_info res =
     (let repo_key = dict_get (res_metric res) ''repo_key'' ''unknown'';
          repo_name = dict_get (res_metric res) ''repo_name'' ''unknown'';
          repo_location = dict_get (res_metric res) ''repo_location'' ''''
      in if repo_location \<noteq> ''''
         then repo_info(repo_key \<mapsto> repo_name @ '' ('' @ repo_location @ '')'')
         else repo_info(repo_key \<mapsto> repo_name))"

text \<open>
  The search loop for a repository error:
  \<^verbatim>\<open>for err_res in ...: if err_res["metric"].get("repo_key") == repo: has_error = True; break\<close>.
\<close>

fun has_error :: "sample list \<Rightarrow> string \<Rightarrow> bool" where
  "has_error [] repo = False"
| "has_error (err_res # rest) repo =
     (if res_metric err_res ''repo_key'' = Some repo then True else has_error rest repo)"

text \<open>
  The search loop for the current status of a job: the value of the first status sample
  whose label \<open>key\<close> equals \<open>name\<close>, and \<open>None\<close> when the loop ends without one.
\<close>

fun current_status :: "string \<Rightarrow> string \<Rightarrow> sample list \<Rightarrow> real option" where
  "current_status key name [] = None"
| "current_status key name (status_res # rest) =
     (if res_metric status_res key = Some name then Some (res_value status_res)
      else current_status key name rest)"

text \<open>
  The body of the pgBackRest loop of \<^verbatim>\<open>main\<close>: the row
  \<open>(repo, repo_display, backup_type, age_sec, status, details)\<close> of one age sample.
\<close>

definition pgbackrest_row ::
  "results \<Rightarrow> (string \<rightharpoonup> string) \<Rightarrow> sample
     \<Rightarrow> string \<times> string \<times> string \<times> real \<times> string \<times> string" where
  "pgbackrest_row rs repo_info res =
     (let repo = dict_get (res_metric res) ''repo_key'' ''unknown'';
          repo_display = dict_get repo_info repo (''repo'' @ repo);
          backup_type = dict_get (res_metric res) ''type'' ''unknown'';
          age_sec = res_value res
      in case (if has_error (r_pgbackrest_repo_errors rs) repo
               then (''[bold red]ERROR[/bold red]'', ''Repository error'')
               else get_status_for_age age_sec ''backup'') of
           (status, details) \<Rightarrow> (repo, repo_display, backup_type, age_sec, status, details))"

definition pgbackrest_rows ::
  "results \<Rightarrow> (string \<times> string \<times> string \<times> real \<times> string \<times> string) list" where
  "pgbackrest_rows rs =
     map (pgbackrest_row rs (foldl repo_info_step Map.empty (r_pgbackrest_repo_info rs)))
         (r_pgbackrest_age rs)"

text \<open>
  The body of the syncoid loop of \<^verbatim>\<open>main\<close>: the row
  \<open>(dataset, target_display, age_sec, status, details)\<close> of one age sample.
\<close>

definition syncoid_row :: "results \<Rightarrow> sample \<Rightarrow> string \<times> string \<times> real \<times> string \<times> string" where
  "syncoid_row rs res =
     (let dataset = dict_get (res_metric res) ''dataset'' ''unknown'';
          target_name = dict_get (res_metric res) ''target_name'' ''unknown'';
          target_location = dict_get (res_metric res) ''target_location'' '''';
          target_display = (if target_location \<noteq> ''''
                            then target_name @ '' ('' @ target_location @ '')''
                            else target_name);
          age_sec = res_value res
      in case (case current_status ''dataset'' dataset (r_syncoid_status rs) of
                 Some cs \<Rightarrow>
                   (case get_syncoid_status cs of
                      (status, details) \<Rightarrow>
                        if cs = 1
                        then (case get_status_for_age age_sec ''backup'' of
                                (age_status, age_details) \<Rightarrow>
                                  if str_in ''STALE'' age_status then (age_status, age_details)
                                  else (status, details))
                        else (status, details))
               | None \<Rightarrow> get_status_for_age age_sec ''backup'') of
           (status, details) \<Rightarrow> (dataset, target_display, age_sec, status, details))"

definition syncoid_rows :: "results \<Rightarrow> (string \<times> string \<times> real \<times> string \<times> string) list" where
  "syncoid_rows rs = map (syncoid_row rs) (r_syncoid_age rs)"

text \<open>
  The body of the restic loop of \<^verbatim>\<open>main\<close>: the row
  \<open>(job, target_display, age_sec, status, details)\<close> of one age sample.
\<close>

definition restic_row :: "results \<Rightarrow> sample \<Rightarrow> string \<times> string \<times> real \<times> string \<times> string" where
  "restic_row rs res =
     (let job = dict_get (res_metric res) ''backup_job'' ''unknown'';
          repo = dict_get (res_metric res) ''repository'' ''unknown'';
          repo_name = dict_get (res_metric res) ''repository_name'' '''';
          repo_location = dict_get (res_metric res) ''repository_location'' '''';
          age_sec = res_value res;
          target_display = (if repo_name \<noteq> '''' \<and> repo_location \<noteq> ''''
                            then repo_name @ '' ('' @ repo_location @ '')''
                            else repo)
      in case (case current_status ''backup_job'' job (r_restic_status rs) of
                 Some cs \<Rightarrow>
                   (case get_restic_status cs of
                      (status, details) \<Rightarrow>
                        if cs = 1
                        then (case get_status_for_age age_sec ''backup'' of
                                (age_status, age_details) \<Rightarrow>
                                  if str_in ''STALE'' age_status then (age_status, age_details)
                                  else (status, details))
                        else (status, details))
               | None \<Rightarrow> get_status_for_age age_sec ''backup'') of
           (status, details) \<Rightarrow> (job, target_display, age_sec, status, details))"

definition restic_rows :: "results \<Rightarrow> (string \<times> string \<times> real \<times> string \<times> string) list" where
  "restic_rows rs = map (restic_row rs) (r_restic_age rs)"

text \<open>
  \<^verbatim>\<open>main\<close> then sorts each list of rows and adds the rows to the table, status and
  details unchanged.
\<close>

section \<open>Sample inputs\<close>

text \<open>
  Concrete answers of the collaborators, for evaluating the definitions: three replication
  jobs known to Prometheus (the third by its info metric alone), the same first two jobs as
  the direct probe sees them, and one dashboard query round.
\<close>

definition ex_item :: "string \<Rightarrow> real \<Rightarrow> item" where
  "ex_item d v = \<lparr>item_metric = [''dataset'' \<mapsto> d, ''target_host'' \<mapsto> ''nas-1''], item_value = Some v\<rparr>"

definition ex_info :: "item list" where
  "ex_info = [ex_item ''tank/a'' 1, ex_item ''tank/b'' 1, ex_item ''tank/c'' 1]"

definition ex_status :: "item list" where
  "ex_status = [ex_item ''tank/a'' 1, ex_item ''tank/b'' 1]"

definition ex_last_success :: "item list" where
  "ex_last_success = [ex_item ''tank/a'' 1700000000]"

definition ex_services :: "service list" where
  "ex_services =
     [\<lparr>svc_unit = ''syncoid-tank-a'', svc_dataset = ''tank/a'', svc_active_state = ''inactive'',
       svc_sub_state = ''dead'', svc_exit_timestamp = ''Tue 2023-11-14 22:13:20 UTC'',
       svc_result = ''success'', svc_target_host = Some ''nas-1''\<rparr>,
      \<lparr>svc_unit = ''syncoid-tank-b'', svc_dataset = ''tank/b'', svc_active_state = ''inactive'',
       svc_sub_state = ''dead'', svc_exit_timestamp = '''',
       svc_result = ''success'', svc_target_host = None\<rparr>]"

definition ex_strptime :: "string \<Rightarrow> real option" where
  "ex_strptime s = (if s = ''Tue 2023-11-14 22:13:20'' then Some 1700000000 else None)"

definition ex_clock :: "nat \<Rightarrow> real" where
  "ex_clock k = 1700003600 + real k"

definition ex_args :: args where
  "ex_args =
     \<lparr>arg_host = ''forge'', arg_domain = ''holthome.net'',
      arg_prometheus_url = ''http://forge.holthome.net:9090'', arg_api_key = Some ''key'',
      arg_dataset = Some ''Sonarr'', arg_target = None, arg_verify = False, arg_json = False\<rparr>"

definition ex_world :: world where
  "ex_world =
     \<lparr>w_warmup = True, w_services = ex_services, w_strptime = ex_strptime,
      w_info = Some ex_info, w_status = Some ex_status, w_last_success = Some ex_last_success,
      w_clock = ex_clock\<rparr>"

definition ex_sample :: "string \<Rightarrow> string \<Rightarrow> real \<Rightarrow> sample" where
  "ex_sample k v x = \<lparr>res_metric = [k \<mapsto> v], res_value = x\<rparr>"

definition ex_results :: results where
  "ex_results =
     \<lparr>r_pgbackrest_age = [ex_sample ''repo_key'' ''1'' 10, ex_sample ''repo_key'' ''2'' 10],
      r_pgbackrest_repo_errors = [ex_sample ''repo_key'' ''1'' 2],
      r_pgbackrest_stanza_status = [],
      r_pgbackrest_repo_info = [],
      r_syncoid_age = [ex_sample ''dataset'' ''tank/a'' 999999, ex_sample ''dataset'' ''tank/b'' 1,
                       ex_sample ''dataset'' ''tank/c'' 10800],
      r_syncoid_status = [ex_sample ''dataset'' ''tank/a'' 2, ex_sample ''dataset'' ''tank/b'' 0,
                          ex_sample ''dataset'' ''tank/c'' 1],
      r_restic_age = [ex_sample ''backup_job'' ''service-a'' 1, ex_sample ''backup_job'' ''service-b'' 93601],
      r_restic_status = [ex_sample ''backup_job'' ''service-a'' 0, ex_sample ''backup_job'' ''service-b'' 1]\<rparr>"

section \<open>Auxiliary notions\<close>

text \<open>
  The invariant of the job dictionary while the Prometheus answers are merged: every entry
  is filed under its own dataset, and the entry of dataset \<open>d\<close>, if there is one, still has
  neither status nor last-success time.
\<close>

definition fresh_at :: "string \<Rightarrow> (string \<times> job) list \<Rightarrow> bool" where
  "fresh_at d jobs \<longleftrightarrow>
     (\<forall>(k, j) \<in> set jobs. job_dataset j = k \<and>
        (k = d \<longrightarrow> job_status j = None \<and> job_last_success j = None))"

text \<open>The verdict part of a rendered job: state and detail.\<close>

definition verdict :: "output_job \<Rightarrow> string \<times> string" where
  "verdict oj = (oj_status_text oj, oj_details oj)"

section \<open>Properties\<close>

subsection \<open>Evaluation lemmas\<close>

lemma str_int_STALE_THRESHOLD_HOURS: "str_int STALE_THRESHOLD_HOURS = ''2''"
  by (simp add: STALE_THRESHOLD_HOURS_def str_int_def str_nat.simps digit_char_def)

lemma str_int_bs_STALE_THRESHOLD_HOURS: "str_int bs_STALE_THRESHOLD_HOURS = ''26''"
  by (simp add: bs_STALE_THRESHOLD_HOURS_def str_int_def str_nat.simps digit_char_def)

lemma get_status_display_unfold:
  "get_status_display now status last_success =
     (if status = Some 2 then (''RUNNING'', ''cyan'', ''Replication in progress'')
      else if status = Some 0 then (''FAILED'', ''red'', ''Last run failed'')
      else if status = Some 1 then
        (case last_success of
           Some ls \<Rightarrow> if now - ls > 7200 then (''STALE'', ''yellow'', ''Last success > 2h ago'')
                      else (''OK'', ''green'', ''Healthy'')
         | None \<Rightarrow> (''OK'', ''green'', ''Healthy (no timestamp)''))
      else
        (case last_success of
           Some ls \<Rightarrow> if now - ls > 7200 then (''STALE'', ''yellow'', ''Last success > 2h ago'')
                      else (''UNKNOWN'', ''dim'', ''No status metric'')
         | None \<Rightarrow> (''UNKNOWN'', ''dim'', ''No status metric'')))"
  by (simp add: get_status_display_def str_int_STALE_THRESHOLD_HOURS Let_def split: option.splits)
     (simp add: STALE_THRESHOLD_HOURS_def)

lemma get_status_for_age_unfold:
  "get_status_for_age age_seconds system =
     (if age_seconds > 93600 then (''[bold yellow]STALE[/bold yellow]'', ''Last success > 26h ago'')
      else (''[bold green]OK[/bold green]'', ''Healthy''))"
  by (simp add: get_status_for_age_def str_int_bs_STALE_THRESHOLD_HOURS)
     (simp add: bs_STALE_THRESHOLD_HOURS_def)

subsection \<open>The job dictionary while it is merged\<close>

lemma set_update_cases:
  "(k', v') \<in> set (AList.update k v xs) \<Longrightarrow> (k', v') \<in> set xs \<or> (k' = k \<and> v' = v)"
  by (induction xs) (auto split: if_splits)

lemma set_map_entry_cases:
  "(k', v') \<in> set (AList.map_entry k f xs) \<Longrightarrow>
     (k', v') \<in> set xs \<or> (k' = k \<and> (\<exists>v. (k, v) \<in> set xs \<and> v' = f v))"
  by (induction xs) (auto split: if_splits)

lemma fresh_at_info_step: "fresh_at d jobs \<Longrightarrow> fresh_at d (info_step jobs it)"
  unfolding fresh_at_def info_step_def Let_def
  by (auto dest!: set_update_cases)

lemma fresh_at_foldl_info: "fresh_at d jobs \<Longrightarrow> fresh_at d (foldl info_step jobs items)"
  by (induction items arbitrary: jobs) (auto intro: fresh_at_info_step)

lemma fresh_at_status_step:
  "fresh_at d jobs \<Longrightarrow> dict_get (item_metric it) ''dataset'' '''' \<noteq> d \<Longrightarrow>
     fresh_at d (status_step jobs it)"
  unfolding fresh_at_def status_step_def Let_def
  by (auto dest!: set_map_entry_cases split: option.splits)

lemma fresh_at_last_success_step:
  "fresh_at d jobs \<Longrightarrow> dict_get (item_metric it) ''dataset'' '''' \<noteq> d \<Longrightarrow>
     fresh_at d (last_success_step jobs it)"
  unfolding fresh_at_def last_success_step_def Let_def
  by (auto dest!: set_map_entry_cases split: option.splits)

lemma fresh_at_foldl_status:
  "fresh_at d jobs \<Longrightarrow> \<forall>it \<in> set items. dict_get (item_metric it) ''dataset'' '''' \<noteq> d \<Longrightarrow>
     fresh_at d (foldl status_step jobs items)"
  by (induction items arbitrary: jobs) (auto intro: fresh_at_status_step)

lemma fresh_at_foldl_last_success:
  "fresh_at d jobs \<Longrightarrow> \<forall>it \<in> set items. dict_get (item_metric it) ''dataset'' '''' \<noteq> d \<Longrightarrow>
     fresh_at d (foldl last_success_step jobs items)"
  by (induction items arbitrary: jobs) (auto intro: fresh_at_last_success_step)

lemma discovered_only_by_info:
  assumes j: "j \<in> set (get_syncoid_metrics_from_prometheus info_result status_result last_success_result)"
    and s: "\<forall>items \<in> set_option status_result. \<forall>it \<in> set items.
              dict_get (item_metric it) ''dataset'' '''' \<noteq> job_dataset j"
    and l: "\<forall>items \<in> set_option last_success_result. \<forall>it \<in> set items.
              dict_get (item_metric it) ''dataset'' '''' \<noteq> job_dataset j"
  shows "job_status j = None \<and> job_last_success j = None"
proof -
  obtain infos where infos: "info_result = Some infos"
    using j by (cases info_result) (auto simp: get_syncoid_metrics_from_prometheus_def)
  define d where "d = job_dataset j"
  define jobs1 where "jobs1 = foldl info_step [] infos"
  define jobs2 where
    "jobs2 = (case status_result of Some items \<Rightarrow> foldl status_step jobs1 items | None \<Rightarrow> jobs1)"
  define jobs3 where
    "jobs3 = (case last_success_result of
                Some items \<Rightarrow> foldl last_success_step jobs2 items
              | None \<Rightarrow> jobs2)"
  have f1: "fresh_at d jobs1"
    unfolding jobs1_def by (rule fresh_at_foldl_info) (simp add: fresh_at_def)
  have f2: "fresh_at d jobs2"
    unfolding jobs2_def using f1 s
    by (auto simp: d_def split: option.splits intro: fresh_at_foldl_status)
  have f3: "fresh_at d jobs3"
    unfolding jobs3_def using f2 l
    by (auto simp: d_def split: option.splits intro: fresh_at_foldl_last_success)
  have "j \<in> snd ` set jobs3"
    using j
    unfolding get_syncoid_metrics_from_prometheus_def infos jobs3_def jobs2_def jobs1_def Let_def
    by simp
  then obtain k where "(k, j) \<in> set jobs3" by auto
  with f3 show ?thesis unfolding fresh_at_def d_def by auto
qed

lemma ex_prometheus_jobs:
  "get_syncoid_metrics_from_prometheus (Some ex_info) (Some ex_status) (Some ex_last_success) =
     [\<lparr>job_dataset = ''tank/a'', job_unit = '''', job_target_host = ''nas-1'',
       job_target_name = '''', job_target_location = '''', job_status = Some 1,
       job_last_success = Some 1700000000, job_instance = Some '''', job_systemd_state = None\<rparr>,
      \<lparr>job_dataset = ''tank/b'', job_unit = '''', job_target_host = ''nas-1'',
       job_target_name = '''', job_target_location = '''', job_status = Some 1,
       job_last_success = None, job_instance = Some '''', job_systemd_state = None\<rparr>,
      \<lparr>job_dataset = ''tank/c'', job_unit = '''', job_target_host = ''nas-1'',
       job_target_name = '''', job_target_location = '''', job_status = None,
       job_last_success = None, job_instance = Some '''', job_systemd_state = None\<rparr>]"
  by (simp add: get_syncoid_metrics_from_prometheus_def ex_info_def ex_status_def
      ex_last_success_def ex_item_def info_step_def status_step_def last_success_step_def
      dict_get_def int_of_float_def Let_def)

subsection \<open>Absent status and absent age\<close>

text \<open>
  Claim C1. A signal with neither a status code nor a last-success time is normalized to
  \<open>UNKNOWN\<close>, never to \<open>OK\<close>. This covers every job that Prometheus mode discovers by its
  info metric alone: when no status sample and no last-success sample carries the job's
  dataset, the merged job has neither field, and its verdict is \<open>UNKNOWN\<close>.
\<close>

theorem absent_status_absent_age_unknown:
  "get_status_display now None None = (''UNKNOWN'', ''dim'', ''No status metric'') \<and>
   fst (get_status_display now None None) \<noteq> ''OK'' \<and>
   (\<forall>j \<in> set (get_syncoid_metrics_from_prometheus info_result status_result last_success_result).
      (\<forall>items \<in> set_option status_result. \<forall>it \<in> set items.
         dict_get (item_metric it) ''dataset'' '''' \<noteq> job_dataset j) \<longrightarrow>
      (\<forall>items \<in> set_option last_success_result. \<forall>it \<in> set items.
         dict_get (item_metric it) ''dataset'' '''' \<noteq> job_dataset j) \<longrightarrow>
      job_status j = None \<and> job_last_success j = None \<and>
      get_status_display now (job_status j) (job_last_success j) =
        (''UNKNOWN'', ''dim'', ''No status metric''))"
proof -
  have direct: "get_status_display now None None = (''UNKNOWN'', ''dim'', ''No status metric'')"
    by (simp add: get_status_display_unfold)
  have "job_status j = None \<and> job_last_success j = None \<and>
        get_status_display now (job_status j) (job_last_success j) =
          (''UNKNOWN'', ''dim'', ''No status metric'')"
    if "j \<in> set (get_syncoid_metrics_from_prometheus info_result status_result last_success_result)"
      and "\<forall>items \<in> set_option status_result. \<forall>it \<in> set items.
             dict_get (item_metric it) ''dataset'' '''' \<noteq> job_dataset j"
      and "\<forall>items \<in> set_option last_success_result. \<forall>it \<in> set items.
             dict_get (item_metric it) ''dataset'' '''' \<noteq> job_dataset j"
    for j
    using discovered_only_by_info [OF that] direct by simp
  with direct show ?thesis by simp
qed

theorem absent_status_absent_age_unknown_witness:
  "map job_dataset (get_syncoid_metrics_from_prometheus (Some ex_info) (Some ex_status)
                      (Some ex_last_success)) = [''tank/a'', ''tank/b'', ''tank/c''] \<and>
   map (\<lambda>it. dict_get (item_metric it) ''dataset'' '''') ex_status = [''tank/a'', ''tank/b''] \<and>
   map (\<lambda>it. dict_get (item_metric it) ''dataset'' '''') ex_last_success = [''tank/a''] \<and>
   get_status_display 1700003600
     (job_status (last (get_syncoid_metrics_from_prometheus (Some ex_info) (Some ex_status)
                          (Some ex_last_success))))
     (job_last_success (last (get_syncoid_metrics_from_prometheus (Some ex_info) (Some ex_status)
                                (Some ex_last_success)))) =
     (''UNKNOWN'', ''dim'', ''No status metric'')"
proof -
  define j where
    "j = last (get_syncoid_metrics_from_prometheus (Some ex_info) (Some ex_status)
                 (Some ex_last_success))"
  have mem: "j \<in> set (get_syncoid_metrics_from_prometheus (Some ex_info) (Some ex_status)
                        (Some ex_last_success))"
    unfolding j_def by (simp add: ex_prometheus_jobs)
  have ds: "job_dataset j = ''tank/c''"
    unfolding j_def by (simp add: ex_prometheus_jobs)
  have datasets:
    "map job_dataset (get_syncoid_metrics_from_prometheus (Some ex_info) (Some ex_status)
                        (Some ex_last_success)) = [''tank/a'', ''tank/b'', ''tank/c'']"
    by (simp add: ex_prometheus_jobs)
  have with_status:
    "map (\<lambda>it. dict_get (item_metric it) ''dataset'' '''') ex_status = [''tank/a'', ''tank/b'']"
    by (simp add: ex_status_def ex_item_def dict_get_def)
  have with_last_success:
    "map (\<lambda>it. dict_get (item_metric it) ''dataset'' '''') ex_last_success = [''tank/a'']"
    by (simp add: ex_last_success_def ex_item_def dict_get_def)
  have s: "\<forall>it \<in> set ex_status. dict_get (item_metric it) ''dataset'' '''' \<noteq> job_dataset j"
    by (simp add: ds ex_status_def ex_item_def dict_get_def)
  have l: "\<forall>it \<in> set ex_last_success. dict_get (item_metric it) ''dataset'' '''' \<noteq> job_dataset j"
    by (simp add: ds ex_last_success_def ex_item_def dict_get_def)
  have "get_status_display 1700003600 (job_status j) (job_last_success j) =
          (''UNKNOWN'', ''dim'', ''No status metric'')"
    using absent_status_absent_age_unknown
            [of 1700003600 "Some ex_info" "Some ex_status" "Some ex_last_success"] mem s l
    by simp
  with datasets with_status with_last_success show ?thesis
    unfolding j_def by (intro conjI)
qed

subsection \<open>Status codes that decide the verdict alone\<close>

lemma ex_current_status:
  "current_status ''dataset'' ''tank/a'' (r_syncoid_status ex_results) = Some 2"
  "current_status ''dataset'' ''tank/b'' (r_syncoid_status ex_results) = Some 0"
  "current_status ''dataset'' ''tank/c'' (r_syncoid_status ex_results) = Some 1"
  "current_status ''backup_job'' ''service-a'' (r_restic_status ex_results) = Some 0"
  "current_status ''backup_job'' ''service-b'' (r_restic_status ex_results) = Some 1"
  by (simp_all add: ex_results_def ex_sample_def)

lemma ex_dict_get [simp]:
  "dict_get (res_metric (ex_sample k v x)) k d = v"
  by (simp add: ex_sample_def dict_get_def)

text \<open>
  Claim C2. A present failed status code (0) gives \<open>FAILED\<close> whatever the age: in the
  normalizer of \<^verbatim>\<open>syncoid-list.py\<close> for every clock reading and every last-success time,
  present or absent, and in the syncoid and restic rows of the dashboard for every age
  sample whose job's current status is 0. The age has no part in the result, which is
  neither \<open>OK\<close> nor \<open>STALE\<close>. (pgBackRest has no status code.)
\<close>

theorem failed_status_outranks_age:
  "get_status_display now (Some 0) last_success = (''FAILED'', ''red'', ''Last run failed'') \<and>
   fst (get_status_display now (Some 0) last_success) \<notin> {''OK'', ''STALE''} \<and>
   (current_status ''dataset'' (dict_get (res_metric res) ''dataset'' ''unknown'')
        (r_syncoid_status rs) = Some 0 \<longrightarrow>
      snd (snd (snd (syncoid_row rs res))) = (''[bold red]FAILED[/bold red]'', ''Last run failed'')) \<and>
   (current_status ''backup_job'' (dict_get (res_metric res) ''backup_job'' ''unknown'')
        (r_restic_status rs) = Some 0 \<longrightarrow>
      snd (snd (snd (restic_row rs res))) = (''[bold red]FAILED[/bold red]'', ''Last run failed''))"
  by (simp add: get_status_display_unfold syncoid_row_def restic_row_def Let_def
      get_syncoid_status_def get_restic_status_def)

theorem failed_status_outranks_age_witness:
  "current_status ''dataset''
     (dict_get (res_metric (ex_sample ''dataset'' ''tank/b'' 1)) ''dataset'' ''unknown'')
     (r_syncoid_status ex_results) = Some 0 \<and>
   snd (snd (snd (syncoid_row ex_results (ex_sample ''dataset'' ''tank/b'' 1)))) =
     (''[bold red]FAILED[/bold red]'', ''Last run failed'') \<and>
   current_status ''backup_job''
     (dict_get (res_metric (ex_sample ''backup_job'' ''service-a'' 1)) ''backup_job'' ''unknown'')
     (r_restic_status ex_results) = Some 0 \<and>
   snd (snd (snd (restic_row ex_results (ex_sample ''backup_job'' ''service-a'' 1)))) =
     (''[bold red]FAILED[/bold red]'', ''Last run failed'') \<and>
   get_status_display 1700003600 (Some 0) (Some 1700003599) =
     (''FAILED'', ''red'', ''Last run failed'')"
  using failed_status_outranks_age
          [of 1700003600 "Some 1700003599" "ex_sample ''dataset'' ''tank/b'' 1" ex_results]
        failed_status_outranks_age
          [of 1700003600 "Some 1700003599" "ex_sample ''backup_job'' ''service-a'' 1" ex_results]
  by (simp add: ex_current_status)

text \<open>
  Claim C3. A replication job whose status code is 2 is \<open>RUNNING\<close> whatever its age: in
  the normalizer of \<^verbatim>\<open>syncoid-list.py\<close> for every clock reading and last-success time,
  and in the syncoid rows of the dashboard for every age sample whose job's current status
  is 2.
\<close>

theorem running_status_ignores_age:
  "get_status_display now (Some 2) last_success =
     (''RUNNING'', ''cyan'', ''Replication in progress'') \<and>
   (current_status ''dataset'' (dict_get (res_metric res) ''dataset'' ''unknown'')
        (r_syncoid_status rs) = Some 2 \<longrightarrow>
      snd (snd (snd (syncoid_row rs res))) = (''[bold cyan]RUNNING[/bold cyan]'', ''In progress''))"
  by (simp add: get_status_display_unfold syncoid_row_def Let_def get_syncoid_status_def)

theorem running_status_ignores_age_witness:
  "current_status ''dataset''
     (dict_get (res_metric (ex_sample ''dataset'' ''tank/a'' 999999)) ''dataset'' ''unknown'')
     (r_syncoid_status ex_results) = Some 2 \<and>
   snd (snd (snd (syncoid_row ex_results (ex_sample ''dataset'' ''tank/a'' 999999)))) =
     (''[bold cyan]RUNNING[/bold cyan]'', ''In progress'') \<and>
   get_status_display 1700009999 (Some 2) (Some 1700000000) =
     (''RUNNING'', ''cyan'', ''Replication in progress'')"
  using running_status_ignores_age
          [of 1700009999 "Some 1700000000" "ex_sample ''dataset'' ''tank/a'' 999999" ex_results]
  by (simp add: ex_current_status)

text \<open>
  Claim C10. In the normalizer of \<^verbatim>\<open>syncoid-list.py\<close>, a status code other than 0, 1 and 2
  is treated exactly as an absent one: \<open>STALE\<close> when the last success is more than two
  hours old, and otherwise \<open>UNKNOWN\<close> with the detail \<open>No status metric\<close>; the result is
  never \<open>RUNNING\<close>, \<open>FAILED\<close> or \<open>OK\<close>.
\<close>

theorem out_of_range_status_as_absent:
  assumes "status \<notin> {0, 1, 2}"
  shows "get_status_display now (Some status) last_success =
           get_status_display now None last_success \<and>
         get_status_display now (Some status) last_success =
           (case last_success of
              Some ls \<Rightarrow>
                if (now - ls) / 3600 > 2 then (''STALE'', ''yellow'', ''Last success > 2h ago'')
                else (''UNKNOWN'', ''dim'', ''No status metric'')
            | None \<Rightarrow> (''UNKNOWN'', ''dim'', ''No status metric'')) \<and>
         fst (get_status_display now (Some status) last_success) \<notin> {''RUNNING'', ''FAILED'', ''OK''}"
  using assms by (simp add: get_status_display_unfold split: option.splits)

theorem out_of_range_status_as_absent_witness:
  "(3::int) \<notin> {0, 1, 2} \<and> (- 1::int) \<notin> {0, 1, 2} \<and>
   get_status_display 1700007201 (Some 3) (Some 1700000000) =
     (''STALE'', ''yellow'', ''Last success > 2h ago'') \<and>
   get_status_display 1700007200 (Some (- 1)) (Some 1700000000) =
     (''UNKNOWN'', ''dim'', ''No status metric'') \<and>
   get_status_display 1700007200 (Some 3) None = (''UNKNOWN'', ''dim'', ''No status metric'')"
proof -
  have h3: "(3::int) \<notin> {0, 1, 2}" and hm: "(- 1::int) \<notin> {0, 1, 2}" by simp_all
  show ?thesis
    using h3 hm
      out_of_range_status_as_absent [OF h3, of 1700007201 "Some 1700000000", THEN conjunct2, THEN conjunct1]
      out_of_range_status_as_absent [OF hm, of 1700007200 "Some 1700000000", THEN conjunct2, THEN conjunct1]
      out_of_range_status_as_absent [OF h3, of 1700007200 None, THEN conjunct2, THEN conjunct1]
    by simp
qed

subsection \<open>Success without a last-success time\<close>

text \<open>
  Claim C5, as the code has it. For a replication job with status code 1 and no
  last-success time, the normalizer of \<^verbatim>\<open>syncoid-list.py\<close> makes no staleness check and
  returns \<open>OK\<close> with the detail \<open>Healthy (no timestamp)\<close>; the direct probe produces such a
  signal for a service that succeeded and reports no exit timestamp.
\<close>

theorem success_without_timestamp_ok:
  "get_status_display now (Some 1) None = (''OK'', ''green'', ''Healthy (no timestamp)'')"
  by (simp add: get_status_display_unfold)

text \<open>
  The claim as stated (\<open>UNKNOWN\<close> for status 1 and an absent age) fails at the second probed
  service of the sample run.
\<close>

theorem success_without_timestamp_counterexample:
  "job_status (verify_job ex_strptime (ex_services ! 1)) = Some 1 \<and>
   job_last_success (verify_job ex_strptime (ex_services ! 1)) = None \<and>
   fst (get_status_display 1700003600 (Some 1) None) = ''OK'' \<and>
   fst (get_status_display 1700003600 (Some 1) None) \<noteq> ''UNKNOWN''"
  by (simp add: get_status_display_unfold verify_job_def ex_services_def Let_def)

subsection \<open>The staleness threshold\<close>

lemma str_in_STALE [simp]:
  "str_in ''STALE'' ''[bold yellow]STALE[/bold yellow]''"
  "\<not> str_in ''STALE'' ''[bold green]OK[/bold green]''"
  by simp_all

lemma has_error_iff:
  "has_error errs repo \<longleftrightarrow> (\<exists>err \<in> set errs. res_metric err ''repo_key'' = Some repo)"
  by (induction errs) auto

lemma ex_has_error:
  "has_error (r_pgbackrest_repo_errors ex_results) ''1''"
  "\<not> has_error (r_pgbackrest_repo_errors ex_results) ''2''"
  by (simp_all add: ex_results_def ex_sample_def)

text \<open>
  Claim C4, as the code has it. With status code 1 the boundary is strict: an age up to and
  including the threshold gives \<open>OK\<close>, and only an age beyond it gives \<open>STALE\<close>, with the
  detail \<open>Last success > Xh ago\<close>. The threshold is 2 hours in \<^verbatim>\<open>syncoid-list.py\<close> and
  26 hours in the dashboard, for its restic rows, its pgBackRest rows (which have no status
  code; here: no repository error) and its syncoid rows alike.
\<close>

theorem staleness_threshold_strict:
  "(now - ls \<le> 2 * 3600 \<longrightarrow>
      get_status_display now (Some 1) (Some ls) = (''OK'', ''green'', ''Healthy'')) \<and>
   (now - ls > 2 * 3600 \<longrightarrow>
      get_status_display now (Some 1) (Some ls) = (''STALE'', ''yellow'', ''Last success > 2h ago'')) \<and>
   (current_status ''backup_job'' (dict_get (res_metric res) ''backup_job'' ''unknown'')
        (r_restic_status rs) = Some 1 \<longrightarrow>
      (res_value res \<le> 26 * 3600 \<longrightarrow>
         snd (snd (snd (restic_row rs res))) = (''[bold green]OK[/bold green]'', ''Success'')) \<and>
      (res_value res > 26 * 3600 \<longrightarrow>
         snd (snd (snd (restic_row rs res))) =
           (''[bold yellow]STALE[/bold yellow]'', ''Last success > 26h ago''))) \<and>
   (current_status ''dataset'' (dict_get (res_metric res) ''dataset'' ''unknown'')
        (r_syncoid_status rs) = Some 1 \<longrightarrow>
      (res_value res \<le> 26 * 3600 \<longrightarrow>
         snd (snd (snd (syncoid_row rs res))) = (''[bold green]OK[/bold green]'', ''Success'')) \<and>
      (res_value res > 26 * 3600 \<longrightarrow>
         snd (snd (snd (syncoid_row rs res))) =
           (''[bold yellow]STALE[/bold yellow]'', ''Last success > 26h ago''))) \<and>
   (\<not> has_error (r_pgbackrest_repo_errors rs) (dict_get (res_metric res) ''repo_key'' ''unknown'') \<longrightarrow>
      (res_value res \<le> 26 * 3600 \<longrightarrow>
         snd (snd (snd (snd (pgbackrest_row rs repo_info res)))) =
           (''[bold green]OK[/bold green]'', ''Healthy'')) \<and>
      (res_value res > 26 * 3600 \<longrightarrow>
         snd (snd (snd (snd (pgbackrest_row rs repo_info res)))) =
           (''[bold yellow]STALE[/bold yellow]'', ''Last success > 26h ago'')))"
proof -
  have syncoid_list:
    "(now - ls \<le> 2 * 3600 \<longrightarrow>
        get_status_display now (Some 1) (Some ls) = (''OK'', ''green'', ''Healthy'')) \<and>
     (now - ls > 2 * 3600 \<longrightarrow>
        get_status_display now (Some 1) (Some ls) = (''STALE'', ''yellow'', ''Last success > 2h ago''))"
    by (simp add: get_status_display_unfold)
  have restic:
    "current_status ''backup_job'' (dict_get (res_metric res) ''backup_job'' ''unknown'')
        (r_restic_status rs) = Some 1 \<longrightarrow>
      (res_value res \<le> 26 * 3600 \<longrightarrow>
         snd (snd (snd (restic_row rs res))) = (''[bold green]OK[/bold green]'', ''Success'')) \<and>
      (res_value res > 26 * 3600 \<longrightarrow>
         snd (snd (snd (restic_row rs res))) =
           (''[bold yellow]STALE[/bold yellow]'', ''Last success > 26h ago''))"
    by (simp add: restic_row_def Let_def get_restic_status_def get_status_for_age_unfold)
  have syncoid:
    "current_status ''dataset'' (dict_get (res_metric res) ''dataset'' ''unknown'')
        (r_syncoid_status rs) = Some 1 \<longrightarrow>
      (res_value res \<le> 26 * 3600 \<longrightarrow>
         snd (snd (snd (syncoid_row rs res))) = (''[bold green]OK[/bold green]'', ''Success'')) \<and>
      (res_value res > 26 * 3600 \<longrightarrow>
         snd (snd (snd (syncoid_row rs res))) =
           (''[bold yellow]STALE[/bold yellow]'', ''Last success > 26h ago''))"
    by (simp add: syncoid_row_def Let_def get_syncoid_status_def get_status_for_age_unfold)
  have pgbackrest:
    "\<not> has_error (r_pgbackrest_repo_errors rs) (dict_get (res_metric res) ''repo_key'' ''unknown'') \<longrightarrow>
      (res_value res \<le> 26 * 3600 \<longrightarrow>
         snd (snd (snd (snd (pgbackrest_row rs repo_info res)))) =
           (''[bold green]OK[/bold green]'', ''Healthy'')) \<and>
      (res_value res > 26 * 3600 \<longrightarrow>
         snd (snd (snd (snd (pgbackrest_row rs repo_info res)))) =
           (''[bold yellow]STALE[/bold yellow]'', ''Last success > 26h ago''))"
    by (simp add: pgbackrest_row_def Let_def get_status_for_age_unfold)
  from syncoid_list restic syncoid pgbackrest show ?thesis by blast
qed

theorem staleness_threshold_strict_witness:
  "get_status_display 1700007200 (Some 1) (Some 1700000000) = (''OK'', ''green'', ''Healthy'') \<and>
   get_status_display 1700007201 (Some 1) (Some 1700000000) =
     (''STALE'', ''yellow'', ''Last success > 2h ago'') \<and>
   snd (snd (snd (restic_row ex_results (ex_sample ''backup_job'' ''service-b'' 93600)))) =
     (''[bold green]OK[/bold green]'', ''Success'') \<and>
   snd (snd (snd (restic_row ex_results (ex_sample ''backup_job'' ''service-b'' 93601)))) =
     (''[bold yellow]STALE[/bold yellow]'', ''Last success > 26h ago'') \<and>
   snd (snd (snd (syncoid_row ex_results (ex_sample ''dataset'' ''tank/c'' 93600)))) =
     (''[bold green]OK[/bold green]'', ''Success'') \<and>
   snd (snd (snd (syncoid_row ex_results (ex_sample ''dataset'' ''tank/c'' 93601)))) =
     (''[bold yellow]STALE[/bold yellow]'', ''Last success > 26h ago'') \<and>
   snd (snd (snd (snd (pgbackrest_row ex_results Map.empty (ex_sample ''repo_key'' ''2'' 93600))))) =
     (''[bold green]OK[/bold green]'', ''Healthy'') \<and>
   snd (snd (snd (snd (pgbackrest_row ex_results Map.empty (ex_sample ''repo_key'' ''2'' 93601))))) =
     (''[bold yellow]STALE[/bold yellow]'', ''Last success > 26h ago'')"
proof -
  have v [simp]: "res_value (ex_sample k v x) = x" for k v x
    by (simp add: ex_sample_def)
  note at_boundary = staleness_threshold_strict [of 1700007200 1700000000 _ ex_results Map.empty]
  note beyond = staleness_threshold_strict [of 1700007201 1700000000 _ ex_results Map.empty]
  show ?thesis
    using at_boundary [of "ex_sample ''backup_job'' ''service-b'' 93600"]
      beyond [of "ex_sample ''backup_job'' ''service-b'' 93601"]
      at_boundary [of "ex_sample ''dataset'' ''tank/c'' 93600"]
      beyond [of "ex_sample ''dataset'' ''tank/c'' 93601"]
      at_boundary [of "ex_sample ''repo_key'' ''2'' 93600"]
      beyond [of "ex_sample ''repo_key'' ''2'' 93601"]
    by (simp add: ex_current_status ex_has_error)
qed

text \<open>
  The claim as stated fails at the boundary and for the dashboard's replication rows: a
  last success exactly two hours old is \<open>OK\<close> in \<^verbatim>\<open>syncoid-list.py\<close>, a restic backup
  exactly 26 hours old is \<open>OK\<close> in the dashboard, and so is a replication three hours old.
\<close>

theorem staleness_threshold_counterexample:
  "get_status_display 1700007200 (Some 1) (Some 1700000000) = (''OK'', ''green'', ''Healthy'') \<and>
   snd (snd (snd (restic_row ex_results (ex_sample ''backup_job'' ''service-b'' 93600)))) =
     (''[bold green]OK[/bold green]'', ''Success'') \<and>
   snd (snd (snd (syncoid_row ex_results (ex_sample ''dataset'' ''tank/c'' 10800)))) =
     (''[bold green]OK[/bold green]'', ''Success'')"
  by (simp add: get_status_display_unfold restic_row_def syncoid_row_def Let_def
      get_restic_status_def get_syncoid_status_def get_status_for_age_unfold
      ex_current_status)
     (simp add: ex_sample_def)

subsection \<open>pgBackRest: the repository error flag comes first\<close>

text \<open>
  Claim C6. For a pgBackRest age sample, the search loop finds an error exactly when some
  repository-error sample carries the sample's repository key. When it does, the row is
  \<open>ERROR\<close> with the detail \<open>Repository error\<close>, however fresh the age; when it does not, the
  row is what the staleness check on the age returns. The rows that \<^verbatim>\<open>main\<close> collects are
  these, one for each age sample, in order.
\<close>

theorem pgbackrest_error_flag_first:
  "((\<exists>err \<in> set (r_pgbackrest_repo_errors rs).
        res_metric err ''repo_key'' = Some (dict_get (res_metric res) ''repo_key'' ''unknown'')) \<longrightarrow>
      snd (snd (snd (snd (pgbackrest_row rs repo_info res)))) =
        (''[bold red]ERROR[/bold red]'', ''Repository error'')) \<and>
   ((\<forall>err \<in> set (r_pgbackrest_repo_errors rs).
        res_metric err ''repo_key'' \<noteq> Some (dict_get (res_metric res) ''repo_key'' ''unknown'')) \<longrightarrow>
      snd (snd (snd (snd (pgbackrest_row rs repo_info res)))) =
        get_status_for_age (res_value res) ''backup'') \<and>
   map (\<lambda>row. snd (snd (snd (snd row)))) (pgbackrest_rows rs) =
     map (\<lambda>res. if \<exists>err \<in> set (r_pgbackrest_repo_errors rs).
                       res_metric err ''repo_key'' =
                         Some (dict_get (res_metric res) ''repo_key'' ''unknown'')
                  then (''[bold red]ERROR[/bold red]'', ''Repository error'')
                  else get_status_for_age (res_value res) ''backup'')
         (r_pgbackrest_age rs)"
  by (simp add: pgbackrest_rows_def pgbackrest_row_def Let_def has_error_iff)

theorem pgbackrest_error_flag_first_witness:
  "has_error (r_pgbackrest_repo_errors ex_results)
     (dict_get (res_metric (ex_sample ''repo_key'' ''1'' 10)) ''repo_key'' ''unknown'') \<and>
   snd (snd (snd (snd (pgbackrest_row ex_results Map.empty (ex_sample ''repo_key'' ''1'' 10))))) =
     (''[bold red]ERROR[/bold red]'', ''Repository error'') \<and>
   \<not> has_error (r_pgbackrest_repo_errors ex_results)
     (dict_get (res_metric (ex_sample ''repo_key'' ''2'' 10)) ''repo_key'' ''unknown'') \<and>
   snd (snd (snd (snd (pgbackrest_row ex_results Map.empty (ex_sample ''repo_key'' ''2'' 10))))) =
     (''[bold green]OK[/bold green]'', ''Healthy'')"
proof -
  have e: "\<exists>err \<in> set (r_pgbackrest_repo_errors ex_results).
      res_metric err ''repo_key'' =
        Some (dict_get (res_metric (ex_sample ''repo_key'' ''1'' 10)) ''repo_key'' ''unknown'')"
    by (simp add: ex_results_def) (simp add: ex_sample_def)
  have n: "\<forall>err \<in> set (r_pgbackrest_repo_errors ex_results).
      res_metric err ''repo_key'' \<noteq>
        Some (dict_get (res_metric (ex_sample ''repo_key'' ''2'' 10)) ''repo_key'' ''unknown'')"
    by (simp add: ex_results_def) (simp add: ex_sample_def)
  have v: "res_value (ex_sample ''repo_key'' ''2'' 10) = 10"
    by (simp add: ex_sample_def)
  from e n v
    pgbackrest_error_flag_first [of ex_results "ex_sample ''repo_key'' ''1'' 10" Map.empty]
    pgbackrest_error_flag_first [of ex_results "ex_sample ''repo_key'' ''2'' 10" Map.empty]
  have rows:
    "snd (snd (snd (snd (pgbackrest_row ex_results Map.empty (ex_sample ''repo_key'' ''1'' 10))))) =
       (''[bold red]ERROR[/bold red]'', ''Repository error'')"
    "snd (snd (snd (snd (pgbackrest_row ex_results Map.empty (ex_sample ''repo_key'' ''2'' 10))))) =
       (''[bold green]OK[/bold green]'', ''Healthy'')"
    by (simp_all add: get_status_for_age_unfold)
  from rows show ?thesis
    by (simp add: ex_has_error)
qed

subsection \<open>The rendering loop\<close>

lemma json_step_fst_snd:
  "json_step now acc job =
     (let v = get_status_display now (job_status job) (job_last_success job);
          status_lower = lower (fst v)
      in (if status_lower \<in> fst ` set (fst acc)
          then AList.map_entry status_lower Suc (fst acc) else fst acc,
          snd acc @
          [\<lparr>oj_dataset = job_dataset job, oj_unit = job_unit job,
            oj_target_host = job_target_host job, oj_target_name = job_target_name job,
            oj_target_location = job_target_location job, oj_status = job_status job,
            oj_status_text = fst v, oj_last_success = job_last_success job,
            oj_details = snd (snd v)\<rparr>]))"
  by (simp add: json_step_def Let_def split: prod.splits)

lemma verdict_record [simp]:
  "verdict \<lparr>oj_dataset = a, oj_unit = b, oj_target_host = c, oj_target_name = d,
            oj_target_location = e, oj_status = f, oj_status_text = st, oj_last_success = g,
            oj_details = det\<rparr> = (st, det)"
  by (simp add: verdict_def)

lemma print_json_loop_clock_cong:
  "(\<forall>i < length jobs. c1 (k + i) = c2 (k + i)) \<Longrightarrow>
     print_json_loop c1 k jobs acc = print_json_loop c2 k jobs acc"
proof (induction jobs arbitrary: k acc)
  case Nil
  show ?case by simp
next
  case (Cons job jobs)
  have head: "c1 k = c2 k"
    using Cons.prems by force
  have rest: "\<forall>i < length jobs. c1 (Suc k + i) = c2 (Suc k + i)"
  proof (intro allI impI)
    fix i assume "i < length jobs"
    then have "Suc i < length (job # jobs)" by simp
    with Cons.prems have "c1 (k + Suc i) = c2 (k + Suc i)" by blast
    then show "c1 (Suc k + i) = c2 (Suc k + i)" by simp
  qed
  show ?case
    by (simp add: head Cons.IH [OF rest])
qed

lemma print_json_loop_signal_only:
  "map job_status js1 = map job_status js2 \<Longrightarrow>
   map job_last_success js1 = map job_last_success js2 \<Longrightarrow>
   fst acc1 = fst acc2 \<Longrightarrow> map verdict (snd acc1) = map verdict (snd acc2) \<Longrightarrow>
     fst (print_json_loop clock k js1 acc1) = fst (print_json_loop clock k js2 acc2) \<and>
     map verdict (snd (print_json_loop clock k js1 acc1)) =
       map verdict (snd (print_json_loop clock k js2 acc2))"
proof (induction js1 arbitrary: js2 k acc1 acc2)
  case Nil
  then show ?case by simp
next
  case (Cons j1 js1)
  from Cons.prems(1) obtain j2 js2' where js2: "js2 = j2 # js2'"
    by (cases js2) auto
  from Cons.prems js2 have same: "job_status j1 = job_status j2"
      "job_last_success j1 = job_last_success j2"
    and tails: "map job_status js1 = map job_status js2'"
      "map job_last_success js1 = map job_last_success js2'"
    by simp_all
  have step_fst: "fst (json_step (clock k) acc1 j1) = fst (json_step (clock k) acc2 j2)"
    using same Cons.prems(3) by (simp add: json_step_fst_snd Let_def)
  have step_snd: "map verdict (snd (json_step (clock k) acc1 j1)) =
                  map verdict (snd (json_step (clock k) acc2 j2))"
    using same Cons.prems(4) by (simp add: json_step_fst_snd Let_def)
  show ?case
    unfolding js2 using Cons.IH [OF tails step_fst step_snd] by simp
qed

lemma ex_verify_jobs:
  "get_syncoid_verify_data ex_strptime ex_services =
     [\<lparr>job_dataset = ''tank/a'', job_unit = ''syncoid-tank-a'', job_target_host = ''nas-1'',
       job_target_name = '''', job_target_location = '''', job_status = Some 1,
       job_last_success = Some 1700000000, job_instance = None,
       job_systemd_state = Some ''inactive/dead''\<rparr>,
      \<lparr>job_dataset = ''tank/b'', job_unit = ''syncoid-tank-b'', job_target_host = ''unknown'',
       job_target_name = '''', job_target_location = '''', job_status = Some 1,
       job_last_success = None, job_instance = None,
       job_systemd_state = Some ''inactive/dead''\<rparr>]"
  by (simp add: get_syncoid_verify_data_def ex_services_def verify_job_def rsplit1_def
      ex_strptime_def Let_def)

lemma ex_prometheus_jobs_two:
  "get_syncoid_metrics_from_prometheus (Some (butlast ex_info)) (Some ex_status)
     (Some ex_last_success) =
     [\<lparr>job_dataset = ''tank/a'', job_unit = '''', job_target_host = ''nas-1'',
       job_target_name = '''', job_target_location = '''', job_status = Some 1,
       job_last_success = Some 1700000000, job_instance = Some '''', job_systemd_state = None\<rparr>,
      \<lparr>job_dataset = ''tank/b'', job_unit = '''', job_target_host = ''nas-1'',
       job_target_name = '''', job_target_location = '''', job_status = Some 1,
       job_last_success = None, job_instance = Some '''', job_systemd_state = None\<rparr>]"
  by (simp add: get_syncoid_metrics_from_prometheus_def ex_info_def ex_status_def
      ex_last_success_def ex_item_def info_step_def status_step_def last_success_step_def
      dict_get_def int_of_float_def Let_def)

lemma print_json_loop_length:
  "length (snd (print_json_loop clock k jobs acc)) = length (snd acc) + length jobs"
  by (induction jobs arbitrary: k acc) (simp_all add: json_step_fst_snd Let_def)

lemma print_json_loop_keeps:
  "i < length (snd acc) \<Longrightarrow> snd (print_json_loop clock k jobs acc) ! i = snd acc ! i"
  by (induction jobs arbitrary: k acc) (simp_all add: json_step_fst_snd Let_def nth_append)

lemma print_json_loop_nth:
  "i < length jobs \<Longrightarrow>
     verdict (snd (print_json_loop clock k jobs acc) ! (length (snd acc) + i)) =
       (fst (get_status_display (clock (k + i)) (job_status (jobs ! i))
               (job_last_success (jobs ! i))),
        snd (snd (get_status_display (clock (k + i)) (job_status (jobs ! i))
                    (job_last_success (jobs ! i)))))"
proof (induction jobs arbitrary: k acc i)
  case Nil
  then show ?case by simp
next
  case (Cons job jobs)
  define acc' where "acc' = json_step (clock k) acc job"
  have len: "length (snd acc') = Suc (length (snd acc))"
    by (simp add: acc'_def json_step_fst_snd Let_def)
  show ?case
  proof (cases i)
    case 0
    have "snd (print_json_loop clock (Suc k) jobs acc') ! length (snd acc) =
          snd acc' ! length (snd acc)"
      by (rule print_json_loop_keeps) (simp add: len)
    then show ?thesis
      by (simp add: 0 acc'_def [symmetric]) (simp add: acc'_def json_step_fst_snd Let_def)
  next
    case (Suc i')
    with Cons.prems have "i' < length jobs" by simp
    from Cons.IH [OF this, of "Suc k" acc'] show ?thesis
      by (simp add: Suc len acc'_def [symmetric])
  qed
qed

lemma print_json_output_verdicts:
  "length (out_jobs (print_json_output clock jobs host mode)) = length jobs"
  "i < length jobs \<Longrightarrow>
     verdict (out_jobs (print_json_output clock jobs host mode) ! i) =
       (fst (get_status_display (clock i) (job_status (jobs ! i)) (job_last_success (jobs ! i))),
        snd (snd (get_status_display (clock i) (job_status (jobs ! i))
                    (job_last_success (jobs ! i)))))"
  using print_json_loop_length [of clock 0 jobs "(initial_stats, [])"]
    print_json_loop_nth [of i jobs clock 0 "(initial_stats, [])"]
  by (auto simp: print_json_output_def split: prod.splits)

lemma get_status_display_age_only:
  "now1 - ls1 = now2 - ls2 \<Longrightarrow>
     get_status_display now1 status (Some ls1) = get_status_display now2 status (Some ls2)"
  by (simp add: get_status_display_def Let_def)

lemma get_status_display_no_timestamp:
  "get_status_display now1 status None = get_status_display now2 status None"
  by (simp add: get_status_display_def)

subsection \<open>Determinism of the normalizer\<close>

text \<open>
  Claim C7. The verdict is determined by the signal and the clock reading, and by nothing
  else. The normalizer uses the reading and the last-success time through their difference
  alone, so two evaluations with the same status code and the same age agree, in
  particular two evaluations of the same signal at the same reading; without a
  last-success time the reading has no influence. In a run of the JSON renderer every job
  is rendered, and the state and detail at position \<open>n\<close> are those of
  \<^verbatim>\<open>get_status_display\<close> at the \<open>n\<close>-th reading on the \<open>n\<close>-th job's status code and
  last-success time: what the loop has accumulated, the other jobs, the host and the mode
  do not reach them. Hence two evaluations of equal signals at equal readings, at any
  positions of any two runs, give the same state and detail; and two runs over the same
  jobs whose clocks agree on the readings taken (one for each job) print the same report.
\<close>

theorem normalizer_deterministic:
  "(now1 - ls1 = now2 - ls2 \<longrightarrow>
      get_status_display now1 status (Some ls1) = get_status_display now2 status (Some ls2)) \<and>
   get_status_display now1 status None = get_status_display now2 status None \<and>
   length (out_jobs (print_json_output clock1 jobs1 host1 mode1)) = length jobs1 \<and>
   (\<forall>n < length jobs1.
      verdict (out_jobs (print_json_output clock1 jobs1 host1 mode1) ! n) =
        (fst (get_status_display (clock1 n) (job_status (jobs1 ! n))
                (job_last_success (jobs1 ! n))),
         snd (snd (get_status_display (clock1 n) (job_status (jobs1 ! n))
                     (job_last_success (jobs1 ! n)))))) \<and>
   (i < length jobs1 \<and> j < length jobs2 \<and>
    job_status (jobs1 ! i) = job_status (jobs2 ! j) \<and>
    job_last_success (jobs1 ! i) = job_last_success (jobs2 ! j) \<and>
    clock1 i = clock2 j \<longrightarrow>
      verdict (out_jobs (print_json_output clock1 jobs1 host1 mode1) ! i) =
      verdict (out_jobs (print_json_output clock2 jobs2 host2 mode2) ! j)) \<and>
   ((\<forall>k < length jobs1. clock1 k = clock2 k) \<longrightarrow>
      print_json_output clock1 jobs1 host1 mode1 = print_json_output clock2 jobs1 host1 mode1)"
proof -
  have age: "now1 - ls1 = now2 - ls2 \<longrightarrow>
      get_status_display now1 status (Some ls1) = get_status_display now2 status (Some ls2)"
    by (rule impI) (rule get_status_display_age_only)
  have no_timestamp: "get_status_display now1 status None = get_status_display now2 status None"
    by (rule get_status_display_no_timestamp)
  have all_rendered: "length (out_jobs (print_json_output clock1 jobs1 host1 mode1)) = length jobs1"
    by (rule print_json_output_verdicts)
  have pointwise: "\<forall>n < length jobs1.
      verdict (out_jobs (print_json_output clock1 jobs1 host1 mode1) ! n) =
        (fst (get_status_display (clock1 n) (job_status (jobs1 ! n))
                (job_last_success (jobs1 ! n))),
         snd (snd (get_status_display (clock1 n) (job_status (jobs1 ! n))
                     (job_last_success (jobs1 ! n)))))"
    by (intro allI impI) (rule print_json_output_verdicts)
  have twice: "i < length jobs1 \<and> j < length jobs2 \<and>
    job_status (jobs1 ! i) = job_status (jobs2 ! j) \<and>
    job_last_success (jobs1 ! i) = job_last_success (jobs2 ! j) \<and>
    clock1 i = clock2 j \<longrightarrow>
      verdict (out_jobs (print_json_output clock1 jobs1 host1 mode1) ! i) =
      verdict (out_jobs (print_json_output clock2 jobs2 host2 mode2) ! j)"
  proof (intro impI, elim conjE)
    assume i: "i < length jobs1" and j: "j < length jobs2"
      and same: "job_status (jobs1 ! i) = job_status (jobs2 ! j)"
        "job_last_success (jobs1 ! i) = job_last_success (jobs2 ! j)"
        "clock1 i = clock2 j"
    show "verdict (out_jobs (print_json_output clock1 jobs1 host1 mode1) ! i) =
          verdict (out_jobs (print_json_output clock2 jobs2 host2 mode2) ! j)"
      unfolding print_json_output_verdicts(2) [OF i] print_json_output_verdicts(2) [OF j] same
      by (rule refl)
  qed
  have "print_json_loop clock1 0 jobs1 (initial_stats, []) =
        print_json_loop clock2 0 jobs1 (initial_stats, [])"
    if "\<forall>k < length jobs1. clock1 k = clock2 k"
    using that by (intro print_json_loop_clock_cong) simp
  then have runs: "(\<forall>k < length jobs1. clock1 k = clock2 k) \<longrightarrow>
      print_json_output clock1 jobs1 host1 mode1 = print_json_output clock2 jobs1 host1 mode1"
    by (simp add: print_json_output_def)
  from age no_timestamp all_rendered pointwise twice runs show ?thesis
    by (intro conjI)
qed

theorem normalizer_deterministic_witness:
  "get_status_display 1700003600 (Some 1) (Some 1700000000) =
     get_status_display 1700003700 (Some 1) (Some 1700000100) \<and>
   length (out_jobs (print_json_output ex_clock (get_syncoid_verify_data ex_strptime ex_services)
                       ''forge.holthome.net'' ''verify'')) = 2 \<and>
   verdict (out_jobs (print_json_output ex_clock (get_syncoid_verify_data ex_strptime ex_services)
                        ''forge.holthome.net'' ''verify'') ! 1) =
     (''OK'', ''Healthy (no timestamp)'') \<and>
   verdict (out_jobs (print_json_output ex_clock
                        (get_syncoid_metrics_from_prometheus (Some (butlast ex_info))
                           (Some ex_status) (Some ex_last_success))
                        ''forge.holthome.net'' ''prometheus'') ! 1) =
   verdict (out_jobs (print_json_output (\<lambda>k. ex_clock (Suc k))
                        (rev (get_syncoid_verify_data ex_strptime ex_services))
                        ''nas-0.holthome.net'' ''verify'') ! 0) \<and>
   ex_clock 2 \<noteq> (\<lambda>k. if k < 2 then 1700003600 + real k else 0) 2 \<and>
   print_json_output ex_clock (get_syncoid_verify_data ex_strptime ex_services)
     ''forge.holthome.net'' ''verify'' =
   print_json_output (\<lambda>k. if k < 2 then 1700003600 + real k else 0)
     (get_syncoid_verify_data ex_strptime ex_services) ''forge.holthome.net'' ''verify''"
proof -
  let ?V = "get_syncoid_verify_data ex_strptime ex_services"
  let ?P = "get_syncoid_metrics_from_prometheus (Some (butlast ex_info)) (Some ex_status)
              (Some ex_last_success)"
  let ?c = "\<lambda>k. if k < 2 then 1700003600 + real k else 0"
  note one_run = normalizer_deterministic
    [where ?now1.0 = 1700003600 and ?ls1.0 = 1700000000 and ?now2.0 = 1700003700
       and ?ls2.0 = 1700000100 and status = "Some 1" and ?clock1.0 = ex_clock
       and ?jobs1.0 = ?V and ?host1.0 = "''forge.holthome.net''" and ?mode1.0 = "''verify''"
       and ?clock2.0 = ?c]
  note two_runs = normalizer_deterministic
    [where ?clock1.0 = ex_clock and ?jobs1.0 = ?P and ?host1.0 = "''forge.holthome.net''"
       and ?mode1.0 = "''prometheus''" and i = 1 and ?clock2.0 = "\<lambda>k. ex_clock (Suc k)"
       and ?jobs2.0 = "rev ?V" and ?host2.0 = "''nas-0.holthome.net''"
       and ?mode2.0 = "''verify''" and j = 0]
  have same_age: "(1700003600::real) - 1700000000 = 1700003700 - 1700000100"
    by simp
  have len: "length ?V = 2"
    by (simp add: ex_verify_jobs)
  have agree: "\<forall>k < length ?V. ex_clock k = ?c k"
    by (simp add: ex_verify_jobs ex_clock_def)
  have differ: "ex_clock 2 \<noteq> ?c 2"
    by (simp add: ex_clock_def)
  have second: "job_status (?V ! Suc 0) = Some 1" "job_last_success (?V ! Suc 0) = None"
    by (simp_all add: ex_verify_jobs)
  have positions: "1 < length ?P \<and> 0 < length (rev ?V) \<and>
      job_status (?P ! 1) = job_status (rev ?V ! 0) \<and>
      job_last_success (?P ! 1) = job_last_success (rev ?V ! 0) \<and>
      ex_clock 1 = (\<lambda>k. ex_clock (Suc k)) 0"
    by (simp add: ex_prometheus_jobs_two ex_verify_jobs)
  have a: "get_status_display 1700003600 (Some 1) (Some 1700000000) =
           get_status_display 1700003700 (Some 1) (Some 1700000100)"
    by (rule mp [OF one_run [THEN conjunct1] same_age])
  have b: "length (out_jobs (print_json_output ex_clock ?V ''forge.holthome.net'' ''verify'')) = 2"
    using one_run [THEN conjunct2, THEN conjunct2, THEN conjunct1] len by (simp only:)
  have "Suc 0 < length ?V"
    by (simp add: len)
  with one_run [THEN conjunct2, THEN conjunct2, THEN conjunct2, THEN conjunct1]
  have "verdict (out_jobs (print_json_output ex_clock ?V ''forge.holthome.net''
                             ''verify'') ! Suc 0) =
          (fst (get_status_display (ex_clock (Suc 0)) (job_status (?V ! Suc 0))
                  (job_last_success (?V ! Suc 0))),
           snd (snd (get_status_display (ex_clock (Suc 0)) (job_status (?V ! Suc 0))
                       (job_last_success (?V ! Suc 0)))))"
    by blast
  then have c: "verdict (out_jobs (print_json_output ex_clock ?V ''forge.holthome.net''
                                     ''verify'') ! 1) = (''OK'', ''Healthy (no timestamp)'')"
    by (simp add: second get_status_display_unfold)
  have d: "verdict (out_jobs (print_json_output ex_clock ?P ''forge.holthome.net''
                                ''prometheus'') ! 1) =
           verdict (out_jobs (print_json_output (\<lambda>k. ex_clock (Suc k)) (rev ?V)
                                ''nas-0.holthome.net'' ''verify'') ! 0)"
    by (rule mp [OF two_runs [THEN conjunct2, THEN conjunct2, THEN conjunct2, THEN conjunct2,
                              THEN conjunct1] positions])
  have e: "print_json_output ex_clock ?V ''forge.holthome.net'' ''verify'' =
           print_json_output ?c ?V ''forge.holthome.net'' ''verify''"
    by (rule mp [OF one_run [THEN conjunct2, THEN conjunct2, THEN conjunct2, THEN conjunct2,
                             THEN conjunct2] agree])
  from a b c d differ e show ?thesis
    by (intro conjI)
qed

subsection \<open>Provenance of a signal\<close>

text \<open>
  Claim C8. Two job lists that carry the same status codes and last-success times, one
  acquired from Prometheus and rendered in mode \<open>prometheus\<close>, the other acquired by the
  direct probe and rendered in mode \<open>verify\<close>, get the same verdicts (state and detail),
  job by job, and the same summary counts: neither the mode nor any other field of a job
  reaches the verdict.
\<close>

theorem provenance_does_not_reach_verdict:
  assumes "map job_status jobs_p = map job_status jobs_v"
    and "map job_last_success jobs_p = map job_last_success jobs_v"
  shows "map verdict (out_jobs (print_json_output clock jobs_p host_p ''prometheus'')) =
         map verdict (out_jobs (print_json_output clock jobs_v host_v ''verify'')) \<and>
         out_summary (print_json_output clock jobs_p host_p ''prometheus'') =
         out_summary (print_json_output clock jobs_v host_v ''verify'')"
proof -
  have len: "length jobs_p = length jobs_v"
    using assms(1) by (rule map_eq_imp_length_eq)
  have "fst (print_json_loop clock 0 jobs_p (initial_stats, [])) =
          fst (print_json_loop clock 0 jobs_v (initial_stats, [])) \<and>
        map verdict (snd (print_json_loop clock 0 jobs_p (initial_stats, []))) =
          map verdict (snd (print_json_loop clock 0 jobs_v (initial_stats, [])))"
    by (rule print_json_loop_signal_only [OF assms]) simp_all
  then show ?thesis
    by (auto simp: print_json_output_def len split: prod.splits)
qed

theorem provenance_does_not_reach_verdict_witness:
  "map job_status (get_syncoid_metrics_from_prometheus (Some (butlast ex_info))
       (Some ex_status) (Some ex_last_success)) =
     map job_status (get_syncoid_verify_data ex_strptime ex_services) \<and>
   map job_last_success (get_syncoid_metrics_from_prometheus (Some (butlast ex_info))
       (Some ex_status) (Some ex_last_success)) =
     map job_last_success (get_syncoid_verify_data ex_strptime ex_services) \<and>
   map verdict (out_jobs (print_json_output ex_clock
       (get_syncoid_metrics_from_prometheus (Some (butlast ex_info))
          (Some ex_status) (Some ex_last_success)) ''forge.holthome.net'' ''prometheus'')) =
     map verdict (out_jobs (print_json_output ex_clock
       (get_syncoid_verify_data ex_strptime ex_services) ''forge.holthome.net'' ''verify'')) \<and>
   out_summary (print_json_output ex_clock
       (get_syncoid_metrics_from_prometheus (Some (butlast ex_info))
          (Some ex_status) (Some ex_last_success)) ''forge.holthome.net'' ''prometheus'') =
     out_summary (print_json_output ex_clock
       (get_syncoid_verify_data ex_strptime ex_services) ''forge.holthome.net'' ''verify'')"
proof -
  have s: "map job_status (get_syncoid_metrics_from_prometheus (Some (butlast ex_info))
       (Some ex_status) (Some ex_last_success)) =
     map job_status (get_syncoid_verify_data ex_strptime ex_services)"
    by (simp add: ex_prometheus_jobs_two ex_verify_jobs)
  have l: "map job_last_success (get_syncoid_metrics_from_prometheus (Some (butlast ex_info))
       (Some ex_status) (Some ex_last_success)) =
     map job_last_success (get_syncoid_verify_data ex_strptime ex_services)"
    by (simp add: ex_prometheus_jobs_two ex_verify_jobs)
  from s l provenance_does_not_reach_verdict [OF s l, of ex_clock "''forge.holthome.net''"
      "''forge.holthome.net''"]
  show ?thesis by blast
qed

subsection \<open>A filter that matches nothing\<close>

lemma print_json_output_Nil:
  "print_json_output clock [] host mode =
     \<lparr>out_host = host, out_mode = mode, out_stale_threshold_hours = 2, out_jobs = [],
      out_summary = \<lparr>sum_total = 0, sum_ok = 0, sum_running = 0, sum_stale = 0,
                      sum_failed = 0, sum_healthy = 0\<rparr>\<rparr>"
  by (simp add: print_json_output_def initial_stats_def stats_get_def STALE_THRESHOLD_HOURS_def)

text \<open>
  A filter leaves nothing exactly when there was nothing to filter, or when it is given,
  not empty, and a substring of no job's field.
\<close>

lemma apply_filter_empty_iff:
  "apply_filter arg field jobs = [] \<longleftrightarrow>
     jobs = [] \<or>
     (\<exists>a. arg = Some a \<and> a \<noteq> '''' \<and> (\<forall>j \<in> set jobs. \<not> str_in (lower a) (lower (field j))))"
  by (auto simp: apply_filter_def filter_empty_conv split: option.splits)

lemma apply_filter_Nil [simp]: "apply_filter arg field [] = []"
  by (simp add: apply_filter_def split: option.splits)

lemma ex_acquire:
  "acquire ex_args ex_world =
     (get_syncoid_metrics_from_prometheus (Some ex_info) (Some ex_status) (Some ex_last_success),
      ''http://forge.holthome.net:9090'', ''prometheus'')"
  by (simp add: acquire_def ex_args_def ex_world_def)

lemma ex_filtered:
  "apply_filter (arg_target ex_args) job_target_host
     (apply_filter (arg_dataset ex_args) job_dataset (fst (acquire ex_args ex_world))) = []"
  by (simp add: ex_acquire ex_prometheus_jobs)
     (simp add: ex_args_def apply_filter_def lower_def lower_char_def)

text \<open>
  Claim C9, as the code has it. When the acquisition has run and the filters leave no job,
  the outcome depends on the output mode. With \<^verbatim>\<open>--json\<close>, \<^verbatim>\<open>main\<close> prints a report with
  an empty job list and all summary counts zero, and returns 0. Without it, \<^verbatim>\<open>main\<close>
  prints \<open>No syncoid replication jobs found.\<close> and the data source, and returns 1.
\<close>

theorem empty_filter_result:
  assumes "\<not> (arg_verify a \<and> \<not> w_warmup w)"
    and "apply_filter (arg_target a) job_target_host
           (apply_filter (arg_dataset a) job_dataset (fst (acquire a w))) = []"
  shows "(arg_json a \<longrightarrow>
            snd (main a w) = 0 \<and>
            last (fst (main a w)) =
              Json \<lparr>out_host = arg_host a @ ''.'' @ arg_domain a,
                    out_mode = snd (snd (acquire a w)),
                    out_stale_threshold_hours = 2,
                    out_jobs = [],
                    out_summary = \<lparr>sum_total = 0, sum_ok = 0, sum_running = 0, sum_stale = 0,
                                    sum_failed = 0, sum_healthy = 0\<rparr>\<rparr>) \<and>
         (\<not> arg_json a \<longrightarrow>
            snd (main a w) = 1 \<and>
            drop (length (fst (main a w)) - 2) (fst (main a w)) =
              [Console ''[yellow]No syncoid replication jobs found.[/yellow]'',
               Console (''[dim]Data source: '' @ fst (snd (acquire a w)) @ ''[/dim]'')])"
proof (cases "acquire a w")
  case (fields jobs source mode)
  with assms(2) have empty:
    "apply_filter (arg_target a) job_target_host (apply_filter (arg_dataset a) job_dataset jobs) = []"
    by simp
  from assms(1) have "arg_verify a \<longrightarrow> w_warmup w" by blast
  then show ?thesis
    by (simp add: main_def Let_def fields empty print_json_output_Nil)
qed

theorem empty_filter_result_witness:
  "\<not> (arg_verify (ex_args\<lparr>arg_json := True\<rparr>) \<and> \<not> w_warmup ex_world) \<and>
   fst (acquire (ex_args\<lparr>arg_json := True\<rparr>) ex_world) \<noteq> [] \<and>
   apply_filter (arg_target (ex_args\<lparr>arg_json := True\<rparr>)) job_target_host
     (apply_filter (arg_dataset (ex_args\<lparr>arg_json := True\<rparr>)) job_dataset
        (fst (acquire (ex_args\<lparr>arg_json := True\<rparr>) ex_world))) = [] \<and>
   main (ex_args\<lparr>arg_json := True\<rparr>) ex_world =
     ([Json \<lparr>out_host = ''forge.holthome.net'', out_mode = ''prometheus'',
             out_stale_threshold_hours = 2, out_jobs = [],
             out_summary = \<lparr>sum_total = 0, sum_ok = 0, sum_running = 0, sum_stale = 0,
                             sum_failed = 0, sum_healthy = 0\<rparr>\<rparr>], 0)"
proof -
  define a where "a = ex_args\<lparr>arg_json := True\<rparr>"
  have acq: "acquire a ex_world = acquire ex_args ex_world"
    by (simp add: a_def acquire_def ex_args_def)
  have ran: "\<not> (arg_verify a \<and> \<not> w_warmup ex_world)"
    by (simp add: a_def ex_args_def)
  have nonempty: "fst (acquire a ex_world) \<noteq> []"
    by (simp add: acq ex_acquire ex_prometheus_jobs)
  have empty: "apply_filter (arg_target a) job_target_host
                 (apply_filter (arg_dataset a) job_dataset (fst (acquire a ex_world))) = []"
    using ex_filtered by (simp add: acq) (simp add: a_def)
  have shape: "length (fst (main a ex_world)) = 1"
    by (simp add: main_def Let_def a_def ex_args_def split: prod.splits)
  have "snd (main a ex_world) = 0 \<and>
        last (fst (main a ex_world)) =
          Json \<lparr>out_host = ''forge.holthome.net'', out_mode = ''prometheus'',
                out_stale_threshold_hours = 2, out_jobs = [],
                out_summary = \<lparr>sum_total = 0, sum_ok = 0, sum_running = 0, sum_stale = 0,
                                sum_failed = 0, sum_healthy = 0\<rparr>\<rparr>"
    using empty_filter_result [OF ran empty]
    by (simp add: acq ex_acquire) (simp add: a_def ex_args_def)
  moreover obtain p where "fst (main a ex_world) = [p]"
    using shape by (cases "fst (main a ex_world)") auto
  ultimately have "main a ex_world =
     ([Json \<lparr>out_host = ''forge.holthome.net'', out_mode = ''prometheus'',
             out_stale_threshold_hours = 2, out_jobs = [],
             out_summary = \<lparr>sum_total = 0, sum_ok = 0, sum_running = 0, sum_stale = 0,
                             sum_failed = 0, sum_healthy = 0\<rparr>\<rparr>], 0)"
    by (cases "main a ex_world") simp
  with ran nonempty empty show ?thesis
    unfolding a_def by blast
qed

text \<open>
  The claim as stated (a valid, non-error outcome) fails for the table output: the sample
  run finds three jobs, its dataset filter \<open>Sonarr\<close> matches none of them, and \<^verbatim>\<open>main\<close>
  returns the exit code 1 after the same two lines that it prints when nothing was acquired.
\<close>

theorem empty_filter_result_counterexample:
  "length (fst (acquire ex_args ex_world)) = 3 \<and>
   apply_filter (arg_dataset ex_args) job_dataset (fst (acquire ex_args ex_world)) = [] \<and>
   main ex_args ex_world =
     ([Console ''[yellow]No syncoid replication jobs found.[/yellow]'',
       Console ''[dim]Data source: http://forge.holthome.net:9090[/dim]''], 1) \<and>
   main ex_args (ex_world\<lparr>w_info := None\<rparr>) = main ex_args ex_world"
proof -
  have filtered: "apply_filter (arg_dataset ex_args) job_dataset (fst (acquire ex_args ex_world)) = []"
    by (simp add: ex_acquire ex_prometheus_jobs)
       (simp add: ex_args_def apply_filter_def lower_def lower_char_def)
  have run: "main ex_args ex_world =
     ([Console ''[yellow]No syncoid replication jobs found.[/yellow]'',
       Console ''[dim]Data source: http://forge.holthome.net:9090[/dim]''], 1)"
    using filtered by (simp add: main_def Let_def ex_acquire) (simp add: ex_args_def)
  have unacquired: "main ex_args (ex_world\<lparr>w_info := None\<rparr>) =
     ([Console ''[yellow]No syncoid replication jobs found.[/yellow]'',
       Console ''[dim]Data source: http://forge.holthome.net:9090[/dim]''], 1)"
    by (simp add: main_def Let_def acquire_def get_syncoid_metrics_from_prometheus_def
        ex_args_def ex_world_def)
  have found: "length (fst (acquire ex_args ex_world)) = 3"
    by (simp add: ex_acquire ex_prometheus_jobs)
  have same: "main ex_args (ex_world\<lparr>w_info := None\<rparr>) = main ex_args ex_world"
    by (rule trans [OF unacquired run [symmetric]])
  from found filtered run same show ?thesis
    by (intro conjI)
qed

end
